theory Spec2Isabelle
  imports Main
begin

section \<open>Platform library: strings and POSIX paths\<close>

text \<open>
  The notebook node of the extension builds local file names with Node's \<^verbatim>\<open>path\<close> module
  and with \<^verbatim>\<open>String.prototype.replace\<close>. Neither is a file of the repository; both are
  modelled here from their documented behaviour, the path functions in their POSIX
  flavour (separator \<^verbatim>\<open>/\<close>). A JavaScript string is a \<^typ>\<open>string\<close>.
\<close>

abbreviation slash :: char where
  "slash \<equiv> CHR ''/''"

text \<open>\<^verbatim>\<open>s.split('/')\<close>: the segments between the slashes; never the empty array.\<close>

fun split_slash :: "string \<Rightarrow> string list" where
  "split_slash [] = [[]]"
| "split_slash (c # cs) =
     (if c = slash then [] # split_slash cs
      else (case split_slash cs of
              [] \<Rightarrow> [[c]]
            | s # ss \<Rightarrow> (c # s) # ss))"

text \<open>\<^verbatim>\<open>segments.join('/')\<close>.\<close>

fun join_slash :: "string list \<Rightarrow> string" where
  "join_slash [] = []"
| "join_slash [s] = s"
| "join_slash (s # t # ts) = s @ slash # join_slash (t # ts)"

text \<open>
  One step of \<^verbatim>\<open>normalizeString\<close>: the segments kept so far are a stack, the last one on
  top. An empty segment and \<^verbatim>\<open>.\<close> are skipped; \<^verbatim>\<open>..\<close> removes the segment on top unless
  that is itself \<^verbatim>\<open>..\<close> or there is none, in which case \<^verbatim>\<open>..\<close> is kept when the path is
  relative (\<open>allowAboveRoot\<close>) and dropped otherwise.
\<close>

definition norm_step :: "bool \<Rightarrow> string list \<Rightarrow> string \<Rightarrow> string list" where
  "norm_step allowAboveRoot stack seg =
     (if seg = [] \<or> seg = ''.'' then stack
      else if seg = ''..'' then
        (case stack of
           [] \<Rightarrow> (if allowAboveRoot then [''..''] else [])
         | upper # below \<Rightarrow>
             (if upper \<noteq> ''..'' then below
              else if allowAboveRoot then ''..'' # stack else stack))
      else seg # stack)"

definition normalizeString :: "string \<Rightarrow> bool \<Rightarrow> string" where
  "normalizeString p allowAboveRoot =
     join_slash (rev (foldl (norm_step allowAboveRoot) [] (split_slash p)))"

definition isAbsolute :: "string \<Rightarrow> bool" where
  "isAbsolute p = (p \<noteq> [] \<and> hd p = slash)"

definition trailingSeparator :: "string \<Rightarrow> bool" where
  "trailingSeparator p = (p \<noteq> [] \<and> last p = slash)"

text \<open>\<^verbatim>\<open>path.normalize\<close>.\<close>

definition normalize :: "string \<Rightarrow> string" where
  "normalize p =
     (if p = [] then ''.''
      else
        (let r = normalizeString p (\<not> isAbsolute p) in
         if r = [] then
           (if isAbsolute p then ''/'' else if trailingSeparator p then ''./'' else ''.'')
         else
           (if isAbsolute p then ''/'' else []) @ r @
           (if trailingSeparator p then ''/'' else [])))"

text \<open>
  \<^verbatim>\<open>path.join(...args)\<close>: the non-empty arguments joined by \<^verbatim>\<open>/\<close>, then normalized; \<^verbatim>\<open>.\<close> when
  there is nothing to join.
\<close>

definition path_join :: "string list \<Rightarrow> string" where
  "path_join args =
     (let joined = filter (\<lambda>a. a \<noteq> []) args in
      if joined = [] then ''.'' else normalize (join_slash joined))"

text \<open>
  \<^verbatim>\<open>path.basename(p)\<close>: trailing slashes are ignored, and the result is what follows the
  last remaining slash.
\<close>

definition basename :: "string \<Rightarrow> string" where
  "basename p = rev (takeWhile (\<lambda>c. c \<noteq> slash) (dropWhile (\<lambda>c. c = slash) (rev p)))"

text \<open>
  \<^verbatim>\<open>path.dirname(p)\<close>: scanning from the end down to index 1, trailing slashes and then the
  last segment are skipped; the path up to the slash found there is the result. Without
  such a slash the result is \<^verbatim>\<open>/\<close> for a rooted path and \<^verbatim>\<open>.\<close> otherwise, and \<^verbatim>\<open>//\<close> when
  the slash found is at index 1 of a rooted path.
\<close>

definition dirname :: "string \<Rightarrow> string" where
  "dirname p =
     (case p of
        [] \<Rightarrow> ''.''
      | h # t \<Rightarrow>
          (case dropWhile (\<lambda>c. c \<noteq> slash) (dropWhile (\<lambda>c. c = slash) (rev t)) of
             [] \<Rightarrow> (if h = slash then ''/'' else ''.'')
           | s # front \<Rightarrow>
               (if h = slash \<and> front = [] then ''//'' else h # rev front)))"

text \<open>
  \<^verbatim>\<open>s.indexOf(pat)\<close>: the position of the first occurrence of \<open>pat\<close> in \<open>s\<close>, if any. The
  empty pattern occurs at position 0.
\<close>

fun isPrefixOf :: "string \<Rightarrow> string \<Rightarrow> bool" where
  "isPrefixOf [] s = True"
| "isPrefixOf (c # cs) [] = False"
| "isPrefixOf (c # cs) (d # ds) = (c = d \<and> isPrefixOf cs ds)"

fun indexOf :: "string \<Rightarrow> string \<Rightarrow> nat option" where
  "indexOf [] pat = (if pat = [] then Some 0 else None)"
| "indexOf (c # cs) pat =
     (if isPrefixOf pat (c # cs) then Some 0 else map_option Suc (indexOf cs pat))"

text \<open>
  The replacement text of \<^verbatim>\<open>replace\<close> is a template (\<^verbatim>\<open>GetSubstitution\<close> of ECMAScript):
  \<^verbatim>\<open>$$\<close> stands for a dollar sign, \<^verbatim>\<open>$&\<close> for the matched text, \<^verbatim>\<open>$`\<close> for the text before
  the match and \<^verbatim>\<open>$'\<close> for the text after it. With a string pattern there are no capture
  groups, so every other use of \<^verbatim>\<open>$\<close> stands for itself.
\<close>

fun GetSubstitution :: "string \<Rightarrow> string \<Rightarrow> nat \<Rightarrow> string \<Rightarrow> string" where
  "GetSubstitution matched str position [] = []"
| "GetSubstitution matched str position [c] = [c]"
| "GetSubstitution matched str position (c # d # r) =
     (if c = CHR ''$'' \<and> d = CHR ''$'' then CHR ''$'' # GetSubstitution matched str position r
      else if c = CHR ''$'' \<and> d = CHR ''&'' then matched @ GetSubstitution matched str position r
      else if c = CHR ''$'' \<and> d = CHR ''`'' then
        take position str @ GetSubstitution matched str position r
      else if c = CHR ''$'' \<and> d = CHR 0x27 then
        drop (position + length matched) str @ GetSubstitution matched str position r
      else c # GetSubstitution matched str position (d # r))"

text \<open>\<^verbatim>\<open>s.replace(pat, rep)\<close> with a string pattern: only the first occurrence is replaced.\<close>

definition replace :: "string \<Rightarrow> string \<Rightarrow> string \<Rightarrow> string" where
  "replace s pat rep =
     (case indexOf s pat of
        None \<Rightarrow> s
      | Some i \<Rightarrow> take i s @ GetSubstitution pat s i rep @ drop (i + length pat) s)"

text \<open>\<^verbatim>\<open>s.includes(pat)\<close>: whether \<open>pat\<close> occurs in \<open>s\<close>.\<close>

definition string_includes :: "string \<Rightarrow> string \<Rightarrow> bool" where
  "string_includes s pat = (indexOf s pat \<noteq> None)"

subsection \<open>Normal forms of paths\<close>


text \<open>What \<^const>\<open>normalize\<close> makes of that stack for a non-empty path.\<close>

definition render :: "bool \<Rightarrow> bool \<Rightarrow> string list \<Rightarrow> string" where
  "render a t st =
     (if st = [] then (if a then ''/'' else if t then ''./'' else ''.'')
      else (if a then ''/'' else []) @ join_slash (rev st) @ (if t then ''/'' else []))"

text \<open>
  The stacks \<^verbatim>\<open>normalizeString\<close> can reach: no segment is empty, is \<^verbatim>\<open>.\<close> or has a slash,
  and \<^verbatim>\<open>..\<close> stands only below other \<^verbatim>\<open>..\<close>, in a relative path.
\<close>

fun nf :: "bool \<Rightarrow> string list \<Rightarrow> bool" where
  "nf allow [] = True"
| "nf allow (x # st) =
     (x \<noteq> [] \<and> x \<noteq> ''.'' \<and> slash \<notin> set x \<and> nf allow st \<and>
      (if x = ''..'' then allow \<and> list_all (\<lambda>y. y = ''..'') st else True))"

text \<open>The segments that \<^const>\<open>norm_step\<close> does not skip.\<close>

definition significant :: "string \<Rightarrow> string list" where
  "significant s = filter (\<lambda>seg. seg \<noteq> [] \<and> seg \<noteq> ''.'') (split_slash s)"

section \<open>The environment of a node\<close>

text \<open>
  \<^verbatim>\<open>WorkspaceItemLanguage\<close> and \<^verbatim>\<open>WorkspaceItemExportFormat\<close> are unions of string literals
  (\<^verbatim>\<open>_types.ts\<close>), so their values are strings; \<^verbatim>\<open>undefined\<close> is \<open>None\<close>.
\<close>

type_synonym WorkspaceItemLanguage = string
type_synonym WorkspaceItemExportFormat = string

text \<open>
  \<^verbatim>\<open>LanguageFileExtensionMapper\<close>: the class is not among the sources; a node reads its
  properties \<^verbatim>\<open>language\<close>, \<^verbatim>\<open>extension\<close>, \<^verbatim>\<open>exportFormat\<close> and \<^verbatim>\<open>isNotebook\<close> only.
\<close>

record LanguageFileExtensionMapper =
  mapper_language :: "WorkspaceItemLanguage option"
  extension :: string
  mapper_exportFormat :: WorkspaceItemExportFormat
  isNotebook :: bool

text \<open>A value thrown by a call, or the reason a promise is rejected with.\<close>

datatype js_error = TypeError string | Rejected string

fun error_text :: "js_error \<Rightarrow> string" where
  "error_text (TypeError m) = ''TypeError: '' @ m"
| "error_text (Rejected m) = m"

text \<open>
  Everything a node reads from its collaborators, none of which is among the sources:
  the settings of the active connection and of the extension, the tables of
  \<^verbatim>\<open>LanguageFileExtensionMapper\<close>, the local file system (\<^verbatim>\<open>fs.existsSync\<close>), and the
  outcome of the calls to \<^verbatim>\<open>Helper.openTempFile\<close> and to the API client, \<open>Inl\<close> being a
  failure.
\<close>

record env =
  allowAllSupportedFileExtensions :: bool
  localSyncFolder :: string
  WorkspaceSubFolder :: string
  rootPath :: string
  RefreshAfterUpDownload :: bool
  allLanguageFileExtensions :: "WorkspaceItemLanguage option \<Rightarrow> string list"
  fromLanguage :: "WorkspaceItemLanguage option \<Rightarrow> LanguageFileExtensionMapper"
  fromExtension :: "string \<Rightarrow> LanguageFileExtensionMapper"
  existsSync :: "string \<Rightarrow> bool"
  openTempFile :: "string \<Rightarrow> string \<Rightarrow> bool \<Rightarrow> js_error + string"
  downloadWorkspaceItem ::
    "string \<Rightarrow> string \<Rightarrow> WorkspaceItemExportFormat \<Rightarrow> js_error + unit"
  uploadWorkspaceItem ::
    "string \<Rightarrow> string \<Rightarrow> WorkspaceItemLanguage option \<Rightarrow> bool \<Rightarrow>
     WorkspaceItemExportFormat \<Rightarrow> js_error + unit"

text \<open>What a node does to the host: messages, commands, and the calls it delegates.\<close>

datatype event =
    ShowInformationMessage string
  | ShowWarningMessage string
  | ShowErrorMessage string
  | ExecuteCommand string bool
  | Wait nat
  | OpenTempFile string string bool
  | DownloadWorkspaceItem string string WorkspaceItemExportFormat
  | UploadWorkspaceItem string string "WorkspaceItemLanguage option" bool
      WorkspaceItemExportFormat
  | ShowDiff "string option" string

section \<open>The generic tree item\<close>

datatype DatabricksWorkspaceTreeItem =
  TreeItem (item_path: string) (item_object_type: "string option") (item_object_id: int)
    (item_parent: "DatabricksWorkspaceTreeItem option")

text \<open>\<^verbatim>\<open>path.split('/').pop()\<close>, the label of an item.\<close>

definition label_of :: "string \<Rightarrow> string" where
  "label_of p = last (split_slash p)"

definition object_type :: "DatabricksWorkspaceTreeItem \<Rightarrow> string" where
  "object_type item =
     (case item_object_type item of None \<Rightarrow> ''DIRECTORY'' | Some t \<Rightarrow> if t = [] then ''DIRECTORY'' else t)"

text \<open>
  \<^verbatim>\<open>getChildren\<close> of the base class: the message is shown and awaited, then \<^verbatim>\<open>undefined\<close> is
  returned. The result is \<open>Inl\<close> for a promise that is rejected, \<open>Inr None\<close> for
  \<^verbatim>\<open>undefined\<close> and \<open>Inr (Some items)\<close> for a list of children.
\<close>

definition getChildren ::
  "DatabricksWorkspaceTreeItem \<Rightarrow> event list \<Rightarrow>
   (js_error + DatabricksWorkspaceTreeItem list option) \<times> event list" where
  "getChildren item w =
     (Inr None,
      w @ [ShowErrorMessage ''getChildren is not implemented! Please overwrite in derived class!''])"

section \<open>The notebook node\<close>

text \<open>
  The fields of \<^verbatim>\<open>DatabricksWorkspaceNotebook\<close>, its own and those it inherits; \<open>priv_x\<close> is
  the field \<^verbatim>\<open>_x\<close>.
\<close>

record DatabricksWorkspaceNotebook =
  priv_path :: string
  priv_object_type :: string
  priv_object_id :: int
  priv_language :: "WorkspaceItemLanguage option"
  priv_isInitialized :: bool
  priv_onlinePathExists :: bool
  priv_languageFileExtension :: "LanguageFileExtensionMapper option"
  label :: string
  iconPath :: "string option \<times> string option"

text \<open>
  Modelled from the spec: the accessors \<^verbatim>\<open>path\<close> and \<^verbatim>\<open>language\<close> of the base class that the
  notebook extends (\<^verbatim>\<open>databricksApi/workspaces/DatabricksWorkspaceTreeItem\<close>, which is not among
  the sources). The specification gives a node its path and a notebook node its language
  as plain fields, so the accessors return \<^verbatim>\<open>_path\<close> and \<^verbatim>\<open>_language\<close>, as \<^verbatim>\<open>path\<close> of the generic
  tree item does.
\<close>

definition path :: "DatabricksWorkspaceNotebook \<Rightarrow> string" where
  "path n = priv_path n"

definition language :: "DatabricksWorkspaceNotebook \<Rightarrow> WorkspaceItemLanguage option" where
  "language n = priv_language n"

definition onlinePathExists :: "DatabricksWorkspaceNotebook \<Rightarrow> bool" where
  "onlinePathExists n = priv_onlinePathExists n"

definition localFileExtension :: "env \<Rightarrow> DatabricksWorkspaceNotebook \<Rightarrow> string" where
  "localFileExtension env n =
     (case priv_languageFileExtension n of
        None \<Rightarrow> extension (fromLanguage env (language n))
      | Some m \<Rightarrow> extension m)"

text \<open>Reading a property of \<^verbatim>\<open>undefined\<close> throws a \<^verbatim>\<open>TypeError\<close>.\<close>

definition exportFormat :: "DatabricksWorkspaceNotebook \<Rightarrow> js_error + WorkspaceItemExportFormat" where
  "exportFormat n =
     (case priv_languageFileExtension n of
        None \<Rightarrow> Inl (TypeError ''Cannot read properties of undefined (reading 'exportFormat')'')
      | Some m \<Rightarrow> Inr (mapper_exportFormat m))"

definition localFolderPath :: "env \<Rightarrow> DatabricksWorkspaceNotebook \<Rightarrow> string" where
  "localFolderPath env n =
     path_join [localSyncFolder env, WorkspaceSubFolder env, dirname (path n)]"

definition localFilePath :: "env \<Rightarrow> DatabricksWorkspaceNotebook \<Rightarrow> string" where
  "localFilePath env n =
     path_join [localFolderPath env n, basename (path n) @ localFileExtension env n]"

text \<open>The path probed for a candidate extension in the loop of \<^verbatim>\<open>localPathExists\<close>.\<close>

definition pathToCheck :: "env \<Rightarrow> DatabricksWorkspaceNotebook \<Rightarrow> string \<Rightarrow> string" where
  "pathToCheck env n ext = replace (localFilePath env n) (localFileExtension env n) ext"

text \<open>
  The loop of \<^verbatim>\<open>localPathExists\<close> over the candidate extensions still to try. The node is
  not changed before the loop ends, so every round reads the same \<^verbatim>\<open>localFilePath\<close> and
  \<^verbatim>\<open>localFileExtension\<close>.
\<close>

fun probe ::
  "env \<Rightarrow> DatabricksWorkspaceNotebook \<Rightarrow> string list \<Rightarrow> bool \<times> DatabricksWorkspaceNotebook" where
  "probe env n [] = (False, n)"
| "probe env n (ext # exts) =
     (if existsSync env (pathToCheck env n ext)
      then (True, n\<lparr>priv_languageFileExtension := Some (fromExtension env ext)\<rparr>)
      else probe env n exts)"

text \<open>
  The accessor \<^verbatim>\<open>localPathExists\<close> may assign \<^verbatim>\<open>_languageFileExtension\<close>: it returns its
  value and the node as it is afterwards.
\<close>

definition localPathExists ::
  "env \<Rightarrow> DatabricksWorkspaceNotebook \<Rightarrow> bool \<times> DatabricksWorkspaceNotebook" where
  "localPathExists env n =
     (if allowAllSupportedFileExtensions env
      then probe env n (allLanguageFileExtensions env (language n))
      else (existsSync env (localFilePath env n), n))"

text \<open>The node as a read of \<^verbatim>\<open>localPathExists\<close> leaves it.\<close>

definition reread :: "env \<Rightarrow> DatabricksWorkspaceNotebook \<Rightarrow> DatabricksWorkspaceNotebook" where
  "reread env n = snd (localPathExists env n)"

definition newline :: char where
  "newline = CHR 0x0A"

text \<open>
  \<^verbatim>\<open>tooltip\<close>: three independent tests, each appending its marker. In \<^verbatim>\<open>a && b\<close> the right
  operand is read only when the left one holds, so \<^verbatim>\<open>localPathExists\<close> is read once or
  twice.
\<close>

definition tooltip :: "env \<Rightarrow> DatabricksWorkspaceNotebook \<Rightarrow> string \<times> DatabricksWorkspaceNotebook" where
  "tooltip env n0 =
     (let t0 = path n0 @ [newline];
          (c1, n1) = (if onlinePathExists n0
                      then (let (l, n') = localPathExists env n0 in (\<not> l, n'))
                      else (False, n0));
          t1 = (if c1 then t0 @ ''[Online only]'' @ [newline] else t0);
          (c2, n2) = (if \<not> onlinePathExists n1 then localPathExists env n1 else (False, n1));
          t2 = (if c2 then t1 @ ''[Offline only]'' @ [newline] else t1);
          (c3, n3) = (if onlinePathExists n2 then localPathExists env n2 else (False, n2));
          t3 = (if c3 then t2 @ ''[Synced]'' @ [newline] else t2)
      in (t3, n3))"

text \<open>The markers of \<^verbatim>\<open>tooltip\<close> that a string contains.\<close>

definition tooltip_markers :: "string \<Rightarrow> string list" where
  "tooltip_markers s =
     filter (string_includes s) [''[Online only]'', ''[Offline only]'', ''[Synced]'']"

text \<open>
  \<^verbatim>\<open>contextValue\<close>: an if-chain with no final \<^verbatim>\<open>return\<close>, so the value is \<^verbatim>\<open>undefined\<close> (\<open>None\<close>)
  when no test holds. Every test reads \<^verbatim>\<open>localPathExists\<close> anew.
\<close>

definition contextValue ::
  "env \<Rightarrow> DatabricksWorkspaceNotebook \<Rightarrow> string option \<times> DatabricksWorkspaceNotebook" where
  "contextValue env n0 =
     (let (l1, n1) = localPathExists env n0 in
      if l1 \<and> onlinePathExists n1 then (Some ''CAN_SYNC'', n1)
      else
        (let (l2, n2) = localPathExists env n1 in
         if \<not> l2 \<and> onlinePathExists n2 then (Some ''CAN_DOWNLOAD'', n2)
         else
           (let (l3, n3) = localPathExists env n2 in
            if l3 \<and> \<not> onlinePathExists n3 then (Some ''CAN_UPLOAD'', n3)
            else (None, n3))))"

text \<open>\<^verbatim>\<open>getIconPath\<close>; \<^verbatim>\<open>null\<close> is \<open>None\<close>.\<close>

definition getIconPath ::
  "env \<Rightarrow> string \<Rightarrow> DatabricksWorkspaceNotebook \<Rightarrow> string option \<times> DatabricksWorkspaceNotebook" where
  "getIconPath env theme n0 =
     (if \<not> priv_isInitialized n0 then (None, n0)
      else
        (let (l1, n1) = localPathExists env n0;
             sync1 = (if l1 \<and> \<not> onlinePathExists n1 then ''_OFFLINE'' else []);
             (l2, n2) = localPathExists env n1;
             sync2 = (if \<not> l2 \<and> onlinePathExists n2 then ''_ONLINE'' else sync1)
         in (Some (path_join [rootPath env, ''resources'', theme, ''workspace'',
                              ''notebook'' @ sync2 @ ''.png'']),
             n2)))"

text \<open>
  The constructor. Its last argument is a language or a mapper. The icon paths are
  computed last, by two calls of \<^verbatim>\<open>getIconPath\<close> on the initialized node.
\<close>

datatype item_source = Online | Local

datatype language_argument =
    Language "WorkspaceItemLanguage option"
  | Mapper LanguageFileExtensionMapper

definition new_notebook ::
  "env \<Rightarrow> string \<Rightarrow> int \<Rightarrow> item_source \<Rightarrow> language_argument \<Rightarrow> DatabricksWorkspaceNotebook" where
  "new_notebook env p object_id source arg =
     (let n0 = \<lparr> priv_path = p,
                 priv_object_type = ''NOTEBOOK'',
                 priv_object_id = object_id,
                 priv_language = (case arg of Mapper m \<Rightarrow> mapper_language m | Language l \<Rightarrow> l),
                 priv_isInitialized = True,
                 priv_onlinePathExists = (if source = Local then False else True),
                 priv_languageFileExtension =
                   Some (case arg of Mapper m \<Rightarrow> m | Language l \<Rightarrow> fromLanguage env l),
                 label = label_of p,
                 iconPath = (None, None) \<rparr>;
          (light, n1) = getIconPath env ''light'' n0;
          (dark, n2) = getIconPath env ''dark'' n1
      in n2\<lparr>iconPath := (light, dark)\<rparr>)"

subsection \<open>Actions\<close>

text \<open>
  An action takes the events so far and returns its result with the events extended.
  The body of the \<^verbatim>\<open>try\<close> block of \<^verbatim>\<open>download\<close>: its result is \<open>Inl\<close> when a call in it
  throws or an awaited promise is rejected, and the local path otherwise.
\<close>

definition download_try ::
  "env \<Rightarrow> DatabricksWorkspaceNotebook \<Rightarrow> bool \<Rightarrow> event list \<Rightarrow> (js_error + string) \<times> event list" where
  "download_try env n asTempFile w =
     (case (if asTempFile
            then (case openTempFile env [] (label n @ ''-ONLINE'') False of
                    Inl e \<Rightarrow> (Inl e, w @ [OpenTempFile [] (label n @ ''-ONLINE'') False])
                  | Inr tmp \<Rightarrow>
                      (Inr (tmp @ localFileExtension env n),
                       w @ [OpenTempFile [] (label n @ ''-ONLINE'') False]))
            else (Inr (localFilePath env n), w)) of
        (Inl e, w1) \<Rightarrow> (Inl e, w1)
      | (Inr localPath, w1) \<Rightarrow>
          (case exportFormat n of
             Inl e \<Rightarrow> (Inl e, w1)
           | Inr fmt \<Rightarrow>
               (case downloadWorkspaceItem env (path n) localPath fmt of
                  Inl e \<Rightarrow> (Inl e, w1 @ [DownloadWorkspaceItem (path n) localPath fmt])
                | Inr response \<Rightarrow>
                    (Inr localPath,
                     w1 @ [DownloadWorkspaceItem (path n) localPath fmt,
                           ShowInformationMessage
                             (''Download of item '' @ priv_path n @ '') finished!'')] @
                     (if RefreshAfterUpDownload env \<and> \<not> asTempFile
                      then [Wait 500, ExecuteCommand ''databricksWorkspace.refresh'' False]
                      else [])))))"

text \<open>
  \<^verbatim>\<open>download\<close>: the \<^verbatim>\<open>catch\<close> block shows the error and returns nothing, so the promise
  resolves to \<^verbatim>\<open>undefined\<close> (\<open>Inr None\<close>). \<open>Inl\<close> would be a rejected promise.
\<close>

definition download ::
  "env \<Rightarrow> DatabricksWorkspaceNotebook \<Rightarrow> bool \<Rightarrow> event list \<Rightarrow>
   (js_error + string option) \<times> event list" where
  "download env n asTempFile w =
     (case download_try env n asTempFile w of
        (Inr localPath, w1) \<Rightarrow> (Inr (Some localPath), w1)
      | (Inl error, w1) \<Rightarrow> (Inr None, w1 @ [ShowErrorMessage (''ERROR: '' @ error_text error)]))"

text \<open>
  The body of the \<^verbatim>\<open>try\<close> block of \<^verbatim>\<open>upload\<close>. The API client's \<^verbatim>\<open>uploadWorkspaceItem\<close> returns a
  promise, as \<^verbatim>\<open>downloadWorkspaceItem\<close> does; \<^verbatim>\<open>upload\<close> does not await it, so its outcome
  \<open>response\<close> is not looked at and the block goes on whatever it is.
\<close>

definition upload_try ::
  "env \<Rightarrow> DatabricksWorkspaceNotebook \<Rightarrow> event list \<Rightarrow> (js_error + unit) \<times> event list" where
  "upload_try env n w =
     (case exportFormat n of
        Inl e \<Rightarrow> (Inl e, w)
      | Inr fmt \<Rightarrow>
          (let response =
                 uploadWorkspaceItem env (localFilePath env n) (path n) (language n) True fmt
           in (Inr (),
               w @ [UploadWorkspaceItem (localFilePath env n) (path n) (language n) True fmt,
                    ShowInformationMessage (''Upload of item '' @ path n @ '') finished!'')] @
               (if RefreshAfterUpDownload env
                then [Wait 500, ExecuteCommand ''databricksWorkspace.refresh'' False]
                else []))))"

definition upload ::
  "env \<Rightarrow> DatabricksWorkspaceNotebook \<Rightarrow> event list \<Rightarrow> (js_error + unit) \<times> event list" where
  "upload env n w =
     (case upload_try env n w of
        (Inr u, w1) \<Rightarrow> (Inr (), w1)
      | (Inl error, w1) \<Rightarrow> (Inr (), w1 @ [ShowErrorMessage (''ERROR: '' @ error_text error)]))"

text \<open>
  \<^verbatim>\<open>compare\<close> has no \<^verbatim>\<open>try\<close> block: what is thrown in it rejects its promise. The result of
  \<^verbatim>\<open>download\<close> is passed on to \<^verbatim>\<open>Helper.showDiff\<close> as it is.
\<close>

definition compare ::
  "env \<Rightarrow> DatabricksWorkspaceNotebook \<Rightarrow> event list \<Rightarrow> (js_error + unit) \<times> event list" where
  "compare env n w =
     (case priv_languageFileExtension n of
        None \<Rightarrow> (Inl (TypeError ''Cannot read properties of undefined (reading 'isNotebook')''), w)
      | Some m \<Rightarrow>
          if isNotebook m
          then (Inr (),
                w @ [ShowErrorMessage ''DIFF is currently not supported when using notebooks. You can change the export formats to work around this issue!''])
          else
            (case download env n True w of
               (Inl e, w1) \<Rightarrow> (Inl e, w1)
             | (Inr onlineFileTempPath, w1) \<Rightarrow>
                 (Inr (), w1 @ [ShowDiff onlineFileTempPath (localFilePath env n)])))"

section \<open>Example environments and nodes\<close>

text \<open>Concrete values on which the theorems below are exercised.\<close>

definition py_mapper :: LanguageFileExtensionMapper where
  "py_mapper = \<lparr> mapper_language = Some ''PYTHON'', extension = ''.py'',
                  mapper_exportFormat = ''SOURCE'', isNotebook = False \<rparr>"

definition ipynb_mapper :: LanguageFileExtensionMapper where
  "ipynb_mapper = \<lparr> mapper_language = Some ''PYTHON'', extension = ''.ipynb'',
                     mapper_exportFormat = ''JUPYTER'', isNotebook = True \<rparr>"

text \<open>
  An environment with the Python extensions \<^verbatim>\<open>.py\<close> and \<^verbatim>\<open>.ipynb\<close>, given the policy, the
  files that exist and the outcome of the API calls.
\<close>

definition example_env :: "bool \<Rightarrow> (string \<Rightarrow> bool) \<Rightarrow> (js_error + unit) \<Rightarrow> env" where
  "example_env allowAll files outcome =
     \<lparr> allowAllSupportedFileExtensions = allowAll,
       localSyncFolder = ''sync'',
       WorkspaceSubFolder = ''Workspace'',
       rootPath = ''ext'',
       RefreshAfterUpDownload = True,
       allLanguageFileExtensions = (\<lambda>l. [''.py'', ''.ipynb'']),
       fromLanguage = (\<lambda>l. py_mapper),
       fromExtension = (\<lambda>e. if e = ''.ipynb'' then ipynb_mapper else py_mapper),
       existsSync = files,
       openTempFile = (\<lambda>pre name keep. Inr (''/tmp/'' @ name)),
       downloadWorkspaceItem = (\<lambda>remote localPath fmt. outcome),
       uploadWorkspaceItem = (\<lambda>localPath remote l overwrite fmt. outcome) \<rparr>"

text \<open>
  A Python notebook, constructed while no local file exists; it may exist online or be
  built from a local file. The second one is constructed from the mapper of \<^verbatim>\<open>.ipynb\<close>.
\<close>

definition example_node :: "string \<Rightarrow> bool \<Rightarrow> DatabricksWorkspaceNotebook" where
  "example_node p online =
     new_notebook (example_env True (\<lambda>f. False) (Inr ())) p 1
       (if online then Online else Local) (Language (Some ''PYTHON''))"

definition example_ipynb_node :: "string \<Rightarrow> DatabricksWorkspaceNotebook" where
  "example_ipynb_node p =
     new_notebook (example_env True (\<lambda>f. False) (Inr ())) p 1 Online (Mapper ipynb_mapper)"

text \<open>
  An environment for R notebooks, with the policy enabled: the canonical extension is
  \<^verbatim>\<open>.r\<close>, and \<^verbatim>\<open>.ipynb\<close> is recognized besides. It differs from the environment above in
  the table of extensions only.
\<close>

definition r_mapper :: LanguageFileExtensionMapper where
  "r_mapper = \<lparr> mapper_language = Some ''R'', extension = ''.r'',
                 mapper_exportFormat = ''SOURCE'', isNotebook = False \<rparr>"

definition example_r_env :: "(string \<Rightarrow> bool) \<Rightarrow> env" where
  "example_r_env files =
     (example_env True files (Inr ()))
       \<lparr> allLanguageFileExtensions := (\<lambda>l. [''.r'', ''.ipynb'']),
         fromLanguage := (\<lambda>l. r_mapper),
         fromExtension := (\<lambda>e. if e = ''.ipynb'' then ipynb_mapper else r_mapper) \<rparr>"

text \<open>An R notebook that exists online, constructed while no local file exists.\<close>

definition example_r_node :: "string \<Rightarrow> DatabricksWorkspaceNotebook" where
  "example_r_node p =
     new_notebook (example_r_env (\<lambda>f. False)) p 1 Online (Language (Some ''R''))"

lemmas path_defs = path_join_def normalize_def normalizeString_def norm_step_def isAbsolute_def
  trailingSeparator_def dirname_def basename_def

lemmas node_defs = localFilePath_def localFolderPath_def localFileExtension_def path_def
  language_def onlinePathExists_def pathToCheck_def replace_def

text \<open>The nodes the constructor returns.\<close>

lemma example_node_record:
  "example_node p online =
     \<lparr> priv_path = p, priv_object_type = ''NOTEBOOK'', priv_object_id = 1,
       priv_language = Some ''PYTHON'',
       priv_isInitialized = True, priv_onlinePathExists = online,
       priv_languageFileExtension = Some py_mapper, label = label_of p,
       iconPath =
         (if online
          then (Some ''ext/resources/light/workspace/notebook_ONLINE.png'',
                Some ''ext/resources/dark/workspace/notebook_ONLINE.png'')
          else (Some ''ext/resources/light/workspace/notebook.png'',
                Some ''ext/resources/dark/workspace/notebook.png'')) \<rparr>"
  by (simp add: example_node_def new_notebook_def getIconPath_def localPathExists_def
      example_env_def language_def onlinePathExists_def path_join_def normalize_def
      normalizeString_def norm_step_def isAbsolute_def trailingSeparator_def)

lemma example_ipynb_node_record:
  "example_ipynb_node p =
     \<lparr> priv_path = p, priv_object_type = ''NOTEBOOK'', priv_object_id = 1,
       priv_language = Some ''PYTHON'',
       priv_isInitialized = True, priv_onlinePathExists = True,
       priv_languageFileExtension = Some ipynb_mapper, label = label_of p,
       iconPath = (Some ''ext/resources/light/workspace/notebook_ONLINE.png'',
                   Some ''ext/resources/dark/workspace/notebook_ONLINE.png'') \<rparr>"
  by (simp add: example_ipynb_node_def new_notebook_def getIconPath_def localPathExists_def
      example_env_def ipynb_mapper_def language_def onlinePathExists_def path_join_def
      normalize_def normalizeString_def norm_step_def isAbsolute_def trailingSeparator_def)

lemma example_r_node_record:
  "example_r_node p =
     \<lparr> priv_path = p, priv_object_type = ''NOTEBOOK'', priv_object_id = 1,
       priv_language = Some ''R'',
       priv_isInitialized = True, priv_onlinePathExists = True,
       priv_languageFileExtension = Some r_mapper, label = label_of p,
       iconPath = (Some ''ext/resources/light/workspace/notebook_ONLINE.png'',
                   Some ''ext/resources/dark/workspace/notebook_ONLINE.png'') \<rparr>"
  by (simp add: example_r_node_def example_r_env_def new_notebook_def getIconPath_def
      localPathExists_def example_env_def language_def onlinePathExists_def path_join_def
      normalize_def normalizeString_def norm_step_def isAbsolute_def trailingSeparator_def)

lemmas example_defs = example_env_def example_node_record example_ipynb_node_record
  py_mapper_def ipynb_mapper_def

lemmas example_r_defs = example_r_env_def example_r_node_record r_mapper_def

section \<open>Properties of the path functions\<close>

text \<open>
  Splitting and joining, the stacks of \<^const>\<open>normalize\<close>, and from them two facts about
  \<^const>\<open>path_join\<close>: a join inside a join can be flattened, and the directory name and the
  base name of a path that names a file join back to the path.
\<close>

lemma split_slash_nonempty [simp]: "split_slash s \<noteq> []"
  by (induction s) (auto split: list.splits)

lemma split_slash_append:
  "split_slash (x @ slash # y) = split_slash x @ split_slash y"
  by (induction x) (auto split: list.splits)







lemma nf_nonempty: "nf a st \<Longrightarrow> seg \<in> set st \<Longrightarrow> seg \<noteq> [] \<and> slash \<notin> set seg"
  by (induction st) (auto split: if_splits)

lemma join_slash_Nil_iff:
  "\<forall>seg \<in> set segs. seg \<noteq> [] \<Longrightarrow> join_slash segs = [] \<longleftrightarrow> segs = []"
  by (induction segs rule: join_slash.induct) auto

lemma hd_join_slash:
  "segs \<noteq> [] \<Longrightarrow> \<forall>seg \<in> set segs. seg \<noteq> [] \<Longrightarrow> hd (join_slash segs) = hd (hd segs)"
  by (induction segs rule: join_slash.induct) auto

lemma last_join_slash:
  "segs \<noteq> [] \<Longrightarrow> \<forall>seg \<in> set segs. seg \<noteq> [] \<Longrightarrow> last (join_slash segs) = last (last segs)"
proof (induction segs rule: join_slash.induct)
  case (3 s t ts)
  then have "join_slash (t # ts) \<noteq> []"
    using join_slash_Nil_iff [of "t # ts"] by simp
  with 3 show ?case by simp
qed auto






lemma nf_rev_segments:
  assumes "nf b st"
  shows "\<forall>seg \<in> set (rev st). seg \<noteq> []" and "\<forall>seg \<in> set (rev st). slash \<notin> set seg"
  using assms nf_nonempty by auto

lemma ends_not_slash:
  assumes "x \<noteq> []" and "slash \<notin> set x"
  shows "hd x \<noteq> slash" and "last x \<noteq> slash"
proof -
  from assms show "hd x \<noteq> slash" by (cases x) auto
  from assms(1) have "last x \<in> set x" by (rule last_in_set)
  with assms(2) show "last x \<noteq> slash" by auto
qed

lemma join_ends_not_slash:
  assumes "segs \<noteq> []" and "\<forall>seg \<in> set segs. seg \<noteq> []" and "\<forall>seg \<in> set segs. slash \<notin> set seg"
  shows "join_slash segs \<noteq> []"
    and "hd (join_slash segs) \<noteq> slash"
    and "last (join_slash segs) \<noteq> slash"
proof -
  show "join_slash segs \<noteq> []"
    using join_slash_Nil_iff [OF assms(2)] assms(1) by simp
  have "hd segs \<in> set segs" and "last segs \<in> set segs"
    using assms(1) by auto
  then have "hd segs \<noteq> []" "slash \<notin> set (hd segs)" "last segs \<noteq> []" "slash \<notin> set (last segs)"
    using assms(2,3) by blast+
  then have "hd (hd segs) \<noteq> slash" and "last (last segs) \<noteq> slash"
    using ends_not_slash by blast+
  then show "hd (join_slash segs) \<noteq> slash" and "last (join_slash segs) \<noteq> slash"
    using hd_join_slash [OF assms(1,2)] last_join_slash [OF assms(1,2)] by simp_all
qed

lemma join_rev_nf:
  assumes "nf b st" and "st \<noteq> []"
  shows "join_slash (rev st) \<noteq> []"
    and "hd (join_slash (rev st)) \<noteq> slash"
    and "last (join_slash (rev st)) \<noteq> slash"
  using join_ends_not_slash [of "rev st"] nf_rev_segments [OF assms(1)] assms(2) by simp_all

lemma render_nonempty: "nf b st \<Longrightarrow> render a t st \<noteq> []"
  using join_rev_nf [of b st] by (auto simp: render_def)


















lemma significant_Nil [simp]: "significant [] = []"
  by (simp add: significant_def)

lemma significant_append: "significant (x @ slash # y) = significant x @ significant y"
  by (simp add: significant_def split_slash_append)






lemma dropWhile_none: "\<forall>x \<in> set xs. \<not> P x \<Longrightarrow> dropWhile P xs = xs"
  by (cases xs) auto













lemma significant_slash [simp]: "significant (slash # x) = significant x"
  using significant_append [of "[]" x] by simp

lemma significant_dot [simp]: "significant ''.'' = []"
  by (simp add: significant_def)

lemma isAbsolute_Cons [simp]: "isAbsolute (c # x) = (c = slash)"
  by (simp add: isAbsolute_def)




section \<open>Properties of the string functions\<close>

text \<open>
  \<^verbatim>\<open>indexOf\<close> finds the first position at which the pattern starts, and a replacement
  text without \<^verbatim>\<open>$\<close> is inserted as it is.
\<close>

lemma GetSubstitution_plain:
  "CHR ''$'' \<notin> set rep \<Longrightarrow> GetSubstitution matched str position rep = rep"
  by (induction matched str position rep rule: GetSubstitution.induct) auto

lemma isPrefixOf_take: "isPrefixOf pat s \<longleftrightarrow> take (length pat) s = pat"
  by (induction pat s rule: isPrefixOf.induct) auto

lemma indexOf_Some_iff:
  "indexOf s pat = Some k \<longleftrightarrow>
     k \<le> length s \<and> isPrefixOf pat (drop k s) \<and> (\<forall>j<k. \<not> isPrefixOf pat (drop j s))"
proof (induction s arbitrary: k)
  case Nil
  then show ?case by (cases pat) auto
next
  case (Cons c cs)
  show ?case
  proof (cases "isPrefixOf pat (c # cs)")
    case True
    then show ?thesis
      by (cases k) auto
  next
    case False
    show ?thesis
    proof (cases k)
      case 0
      with False show ?thesis by simp
    next
      case (Suc k')
      have "(\<forall>j<Suc k'. \<not> isPrefixOf pat (drop j (c # cs))) \<longleftrightarrow>
            (\<forall>j<k'. \<not> isPrefixOf pat (drop j cs))"
        using False by (auto simp: less_Suc_eq_0_disj)
      with False Suc Cons.IH [of k'] show ?thesis by auto
    qed
  qed
qed

lemma replace_first:
  assumes "s = front @ pat @ rest"
    and "\<forall>j < length front. \<not> isPrefixOf pat (drop j s)"
    and "CHR ''$'' \<notin> set rep"
  shows "replace s pat rep = front @ rep @ rest"
proof -
  have "isPrefixOf pat (drop (length front) s)"
    using assms(1) by (simp add: isPrefixOf_take)
  with assms(1,2) have "indexOf s pat = Some (length front)"
    by (simp add: indexOf_Some_iff)
  with assms(1,3) show ?thesis
    by (simp add: replace_def GetSubstitution_plain)
qed

text \<open>
  A pattern occurs in a string when the string splits around it; an occurrence cannot
  span a character that the pattern does not have.
\<close>

lemma indexOf_Nil_pat [simp]: "indexOf s [] = Some 0"
  by (cases s) auto

lemma string_includes_iff: "string_includes s pat \<longleftrightarrow> (\<exists>xs ys. s = xs @ pat @ ys)"
proof
  assume "string_includes s pat"
  then obtain k where "indexOf s pat = Some k"
    by (auto simp: string_includes_def)
  then have "take (length pat) (drop k s) = pat"
    by (simp add: indexOf_Some_iff isPrefixOf_take)
  then have "s = take k s @ pat @ drop (length pat) (drop k s)"
    by (metis append_take_drop_id)
  then show "\<exists>xs ys. s = xs @ pat @ ys" by blast
next
  assume "\<exists>xs ys. s = xs @ pat @ ys"
  then obtain xs ys where s: "s = xs @ pat @ ys" by blast
  have "indexOf (xs @ pat @ ys) pat \<noteq> None"
  proof (induction xs)
    case Nil
    have "isPrefixOf pat (pat @ ys)" by (simp add: isPrefixOf_take)
    then show ?case by (cases "pat @ ys") auto
  next
    case (Cons x xs)
    then show ?case by auto
  qed
  with s show "string_includes s pat" by (simp add: string_includes_def)
qed

lemma string_includes_separated:
  assumes "c \<notin> set pat"
  shows "string_includes (a @ c # b) pat \<longleftrightarrow> string_includes a pat \<or> string_includes b pat"
proof
  assume "string_includes (a @ c # b) pat"
  then obtain xs ys where eq: "a @ c # b = xs @ pat @ ys"
    by (auto simp: string_includes_iff)
  then consider us where "a = xs @ us" "us @ c # b = pat @ ys"
    | us where "a @ us = xs" "c # b = us @ pat @ ys"
    by (auto simp: append_eq_append_conv2)
  then show "string_includes a pat \<or> string_includes b pat"
  proof cases
    case 1
    from 1(2) consider vs where "us = pat @ vs"
      | vs where "us @ vs = pat" "c # b = vs @ ys"
      by (auto simp: append_eq_append_conv2)
    then show ?thesis
    proof cases
      case 1
      with \<open>a = xs @ us\<close> have "a = xs @ pat @ vs" by simp
      then show ?thesis by (auto simp: string_includes_iff)
    next
      case 2
      show ?thesis
      proof (cases vs)
        case Nil
        with 2 \<open>a = xs @ us\<close> have "a = xs @ pat @ []" by simp
        then show ?thesis unfolding string_includes_iff by blast
      next
        case (Cons v vs')
        with 2 have "c \<in> set pat" by auto
        with assms show ?thesis by simp
      qed
    qed
  next
    case 2
    show ?thesis
    proof (cases us)
      case Nil
      with 2 have "c # b = pat @ ys" by simp
      with assms have "pat = []" by (cases pat) auto
      then show ?thesis by (simp add: string_includes_def)
    next
      case (Cons u us')
      with 2 have "b = us' @ pat @ ys" by simp
      then show ?thesis by (auto simp: string_includes_iff)
    qed
  qed
next
  assume "string_includes a pat \<or> string_includes b pat"
  then show "string_includes (a @ c # b) pat"
  proof
    assume "string_includes a pat"
    then obtain xs ys where "a = xs @ pat @ ys" by (auto simp: string_includes_iff)
    then have "a @ c # b = xs @ pat @ (ys @ c # b)" by simp
    then show ?thesis unfolding string_includes_iff by blast
  next
    assume "string_includes b pat"
    then obtain xs ys where "b = xs @ pat @ ys" by (auto simp: string_includes_iff)
    then have "a @ c # b = (a @ c # xs) @ pat @ ys" by simp
    then show ?thesis unfolding string_includes_iff by blast
  qed
qed

lemma tooltip_markers_after_path:
  assumes "tooltip_markers p = []"
  shows "tooltip_markers (p @ newline # rest) = tooltip_markers rest"
proof -
  have "string_includes (p @ newline # rest) m = string_includes rest m"
    if "m \<in> set [''[Online only]'', ''[Offline only]'', ''[Synced]'']" for m
  proof -
    from that have "newline \<notin> set m" by (auto simp: newline_def)
    moreover have "\<forall>x \<in> set [''[Online only]'', ''[Offline only]'', ''[Synced]'']. \<not> string_includes p x"
      using assms unfolding tooltip_markers_def filter_empty_conv .
    with that have "\<not> string_includes p m" by blast
    ultimately show ?thesis by (simp add: string_includes_separated)
  qed
  then show ?thesis
    unfolding tooltip_markers_def by (intro filter_cong) auto
qed

lemma tooltip_markers_lines:
  "tooltip_markers [] = []"
  "tooltip_markers (''[Online only]'' @ [newline]) = [''[Online only]'']"
  "tooltip_markers (''[Offline only]'' @ [newline]) = [''[Offline only]'']"
  "tooltip_markers (''[Synced]'' @ [newline]) = [''[Synced]'']"
  by (simp_all add: tooltip_markers_def string_includes_def newline_def)

lemma tooltip_markers_tooltip:
  assumes "tooltip_markers p = []"
  shows "tooltip_markers (p @ [newline]) = []"
    and "tooltip_markers (p @ [newline] @ ''[Online only]'' @ [newline]) = [''[Online only]'']"
    and "tooltip_markers (p @ [newline] @ ''[Offline only]'' @ [newline]) = [''[Offline only]'']"
    and "tooltip_markers (p @ [newline] @ ''[Synced]'' @ [newline]) = [''[Synced]'']"
proof -
  have step: "tooltip_markers (p @ [newline] @ rest) = tooltip_markers rest" for rest
    using tooltip_markers_after_path [OF assms, of rest] by simp
  show "tooltip_markers (p @ [newline]) = []"
    using step [of "[]"] by (simp add: tooltip_markers_lines(1))
  show "tooltip_markers (p @ [newline] @ ''[Online only]'' @ [newline]) = [''[Online only]'']"
    by (simp only: step tooltip_markers_lines(2))
  show "tooltip_markers (p @ [newline] @ ''[Offline only]'' @ [newline]) = [''[Offline only]'']"
    by (simp only: step tooltip_markers_lines(3))
  show "tooltip_markers (p @ [newline] @ ''[Synced]'' @ [newline]) = [''[Synced]'']"
    by (simp only: step tooltip_markers_lines(4))
qed

section \<open>The existence check on the local file\<close>

lemma probe_find:
  "probe env n exts =
     (case find (\<lambda>ext. existsSync env (pathToCheck env n ext)) exts of
        None \<Rightarrow> (False, n)
      | Some ext \<Rightarrow> (True, n\<lparr>priv_languageFileExtension := Some (fromExtension env ext)\<rparr>))"
  by (induction exts) simp_all

text \<open>
  With the policy \<^verbatim>\<open>allowAllSupportedFileExtensions\<close> enabled, \<^verbatim>\<open>localPathExists\<close> goes through
  the extensions recognized for the node's language in their order. The first one whose
  probed path exists (\<^const>\<open>find\<close> returns the first element of the list that satisfies the
  test) makes the result true and rebinds the active mapping to the mapper of that
  extension; when none exists the result is false and the node is as it was.
\<close>

lemma localPathExists_find:
  assumes "allowAllSupportedFileExtensions env"
  shows "localPathExists env n =
     (case find (\<lambda>ext. existsSync env (pathToCheck env n ext))
             (allLanguageFileExtensions env (language n)) of
        None \<Rightarrow> (False, n)
      | Some ext \<Rightarrow> (True, n\<lparr>priv_languageFileExtension := Some (fromExtension env ext)\<rparr>))"
  using assms by (simp add: localPathExists_def probe_find)

text \<open>
  On the Python notebook \<^verbatim>\<open>/Users/me/nb\<close> the file with the canonical extension \<^verbatim>\<open>.py\<close> is
  absent and the one with the alternate extension \<^verbatim>\<open>.ipynb\<close> exists: the read is true and
  rebinds the mapping to that of \<^verbatim>\<open>.ipynb\<close>.
\<close>

lemma localPathExists_find_example:
  "localPathExists
       (example_env True (\<lambda>p. p = ''sync/Workspace/Users/me/nb.ipynb'') (Inr ()))
       (example_node ''/Users/me/nb'' True)
     = (True, (example_node ''/Users/me/nb'' True)
                \<lparr>priv_languageFileExtension := Some ipynb_mapper\<rparr>)"
  using localPathExists_find
    [of "example_env True (\<lambda>p. p = ''sync/Workspace/Users/me/nb.ipynb'') (Inr ())"
        "example_node ''/Users/me/nb'' True"]
  by (simp add: path_defs node_defs example_defs)

text \<open>
  C2: with the policy enabled, a read of \<^verbatim>\<open>localPathExists\<close> is to find the local file of
  the node under any recognized extension, return true and rebind the mapping to that
  extension. The loop looks for the file of a candidate at \<^verbatim>\<open>localFilePath\<close> with the first
  occurrence of the canonical extension replaced, and that occurrence need not be the
  extension of the file. On the R notebook \<^verbatim>\<open>/Users/john.roberts@corp.com/nb\<close>, whose
  canonical extension \<^verbatim>\<open>.r\<close> occurs in the name of the user folder, the file \<^verbatim>\<open>nb.ipynb\<close> of
  the notebook exists in its local folder and \<^verbatim>\<open>.ipynb\<close> is a recognized extension; the path
  probed for \<^verbatim>\<open>.ipynb\<close> lies in another folder, the read is false, and the mapping stays
  that of \<^verbatim>\<open>.r\<close>.
\<close>

theorem localPathExists_misses_alternate_file:
  "allowAllSupportedFileExtensions
     (example_r_env (\<lambda>p. p = ''sync/Workspace/Users/john.roberts@corp.com/nb.ipynb''))
   \<and> allLanguageFileExtensions
       (example_r_env (\<lambda>p. p = ''sync/Workspace/Users/john.roberts@corp.com/nb.ipynb''))
       (language (example_r_node ''/Users/john.roberts@corp.com/nb'')) = [''.r'', ''.ipynb'']
   \<and> localFilePath
       (example_r_env (\<lambda>p. p = ''sync/Workspace/Users/john.roberts@corp.com/nb.ipynb''))
       (example_r_node ''/Users/john.roberts@corp.com/nb'')
     = ''sync/Workspace/Users/john.roberts@corp.com/nb.r''
   \<and> existsSync
       (example_r_env (\<lambda>p. p = ''sync/Workspace/Users/john.roberts@corp.com/nb.ipynb''))
       (path_join
          [localFolderPath
             (example_r_env (\<lambda>p. p = ''sync/Workspace/Users/john.roberts@corp.com/nb.ipynb''))
             (example_r_node ''/Users/john.roberts@corp.com/nb''),
           basename (path (example_r_node ''/Users/john.roberts@corp.com/nb'')) @ ''.ipynb''])
   \<and> pathToCheck
       (example_r_env (\<lambda>p. p = ''sync/Workspace/Users/john.roberts@corp.com/nb.ipynb''))
       (example_r_node ''/Users/john.roberts@corp.com/nb'') ''.ipynb''
     = ''sync/Workspace/Users/john.ipynboberts@corp.com/nb.r''
   \<and> localPathExists
       (example_r_env (\<lambda>p. p = ''sync/Workspace/Users/john.roberts@corp.com/nb.ipynb''))
       (example_r_node ''/Users/john.roberts@corp.com/nb'')
     = (False, example_r_node ''/Users/john.roberts@corp.com/nb'')
   \<and> priv_languageFileExtension (example_r_node ''/Users/john.roberts@corp.com/nb'')
     = Some r_mapper"
  by (simp add: localPathExists_def path_defs node_defs example_defs example_r_defs)

text \<open>
  C9: with the policy disabled, \<^verbatim>\<open>localPathExists\<close> is the existence check on the canonical
  \<^verbatim>\<open>localFilePath\<close>, and the node, its active mapping included, is left as it was.
\<close>

theorem localPathExists_canonical_only:
  assumes "\<not> allowAllSupportedFileExtensions env"
  shows "localPathExists env n = (existsSync env (localFilePath env n), n)"
  using assms by (simp add: localPathExists_def)

theorem localPathExists_canonical_only_witness:
  "\<not> allowAllSupportedFileExtensions
       (example_env False (\<lambda>p. p = ''sync/Workspace/Users/me/nb.ipynb'') (Inr ()))
   \<and> localPathExists
       (example_env False (\<lambda>p. p = ''sync/Workspace/Users/me/nb.ipynb'') (Inr ()))
       (example_node ''/Users/me/nb'' True)
     = (False, example_node ''/Users/me/nb'' True)"
  using localPathExists_canonical_only
    [of "example_env False (\<lambda>p. p = ''sync/Workspace/Users/me/nb.ipynb'') (Inr ())"
        "example_node ''/Users/me/nb'' True"]
  by (simp add: path_defs node_defs example_defs)

lemma localPathExists_False_unchanged:
  "\<not> fst (localPathExists env n) \<Longrightarrow> snd (localPathExists env n) = n"
  by (simp add: localPathExists_def probe_find split: option.splits if_splits)

lemma localPathExists_online:
  "onlinePathExists (snd (localPathExists env n)) = onlinePathExists n"
  by (simp add: localPathExists_def probe_find onlinePathExists_def split: option.splits)

lemma localPathExists_path:
  "path (snd (localPathExists env n)) = path n"
  by (simp add: localPathExists_def probe_find path_def split: option.splits)

lemma localPathExists_disabled_unchanged:
  "\<not> allowAllSupportedFileExtensions env \<Longrightarrow> snd (localPathExists env n) = n"
  by (simp add: localPathExists_def)

section \<open>The generic tree item\<close>

text \<open>
  C8: \<^verbatim>\<open>getChildren\<close> of the generic tree item shows the "not implemented" message and
  resolves to \<^verbatim>\<open>undefined\<close>: it neither throws nor returns a list of children.
\<close>

theorem getChildren_not_implemented:
  "getChildren item w =
     (Inr None,
      w @ [ShowErrorMessage ''getChildren is not implemented! Please overwrite in derived class!''])"
  by (simp add: getChildren_def)

section \<open>The active mapping of a node\<close>

text \<open>
  The constructor binds \<^verbatim>\<open>_languageFileExtension\<close> to a mapper, and reading
  \<^verbatim>\<open>localPathExists\<close> or \<^verbatim>\<open>getIconPath\<close> rebinds it to a mapper at most: a node that has been
  constructed always has an active mapping.
\<close>

lemma mapper_localPathExists:
  "priv_languageFileExtension n \<noteq> None \<Longrightarrow>
   priv_languageFileExtension (snd (localPathExists env n)) \<noteq> None"
  by (simp add: localPathExists_def probe_find split: option.splits)

lemma mapper_getIconPath:
  assumes "priv_languageFileExtension n \<noteq> None"
  shows "priv_languageFileExtension (snd (getIconPath env theme n)) \<noteq> None"
proof (cases "priv_isInitialized n")
  case False
  with assms show ?thesis by (simp add: getIconPath_def)
next
  case True
  obtain l1 n1 where r1: "localPathExists env n = (l1, n1)" by (cases "localPathExists env n")
  obtain l2 n2 where r2: "localPathExists env n1 = (l2, n2)" by (cases "localPathExists env n1")
  from assms r1 have "priv_languageFileExtension n1 \<noteq> None"
    using mapper_localPathExists [of n env] by simp
  with r2 have "priv_languageFileExtension n2 \<noteq> None"
    using mapper_localPathExists [of n1 env] by simp
  with True r1 r2 show ?thesis by (simp add: getIconPath_def)
qed

lemma mapper_new_notebook:
  "priv_languageFileExtension (new_notebook env p i source arg) \<noteq> None"
proof -
  define n0 where "n0 = \<lparr> priv_path = p,
                 priv_object_type = ''NOTEBOOK'',
                 priv_object_id = i,
                 priv_language = (case arg of Mapper m \<Rightarrow> mapper_language m | Language l \<Rightarrow> l),
                 priv_isInitialized = True,
                 priv_onlinePathExists = (if source = Local then False else True),
                 priv_languageFileExtension =
                   Some (case arg of Mapper m \<Rightarrow> m | Language l \<Rightarrow> fromLanguage env l),
                 label = label_of p,
                 iconPath = (None, None) \<rparr>"
  obtain light n1 where r1: "getIconPath env ''light'' n0 = (light, n1)"
    by (cases "getIconPath env ''light'' n0")
  obtain dark n2 where r2: "getIconPath env ''dark'' n1 = (dark, n2)"
    by (cases "getIconPath env ''dark'' n1")
  have "priv_languageFileExtension n0 \<noteq> None" by (simp add: n0_def)
  with r1 have "priv_languageFileExtension n1 \<noteq> None"
    using mapper_getIconPath [of n0 env "''light''"] by simp
  with r2 have "priv_languageFileExtension n2 \<noteq> None"
    using mapper_getIconPath [of n1 env "''dark''"] by simp
  moreover have "new_notebook env p i source arg = n2\<lparr>iconPath := (light, dark)\<rparr>"
    using r1 r2 by (simp add: new_notebook_def n0_def [symmetric])
  ultimately show ?thesis by simp
qed

section \<open>Download, upload and compare\<close>

lemma download_resolves: "\<exists>r w'. download env n asTempFile w = (Inr r, w')"
  by (simp add: download_def split: prod.splits sum.splits)

lemma download_catch:
  "download_try env n asTempFile w = (Inl e, w1) \<Longrightarrow>
   download env n asTempFile w = (Inr None, w1 @ [ShowErrorMessage (''ERROR: '' @ error_text e)])"
  by (simp add: download_def)

lemma download_return:
  "download_try env n asTempFile w = (Inr p, w1) \<Longrightarrow>
   download env n asTempFile w = (Inr (Some p), w1)"
  by (simp add: download_def)

text \<open>
  C4: \<^verbatim>\<open>download\<close> never rejects, whatever happens in it. When the node has its mapping and
  the local path is the canonical one, or that of a temporary file with the local
  extension appended when \<^verbatim>\<open>asTempFile\<close> is set: if the remote fetch fails, its error is
  shown as a message and the result is \<^verbatim>\<open>undefined\<close>; if it succeeds, the result is the local
  path the content was fetched to. Whatever is thrown in the \<^verbatim>\<open>try\<close> block ends in the same
  way, so the result is a path exactly when the block ran to its end.
\<close>

theorem download_never_rethrows:
  "(\<exists>r w'. download env n asTempFile w = (Inr r, w'))
   \<and> (\<forall>e w1. download_try env n asTempFile w = (Inl e, w1) \<longrightarrow>
          download env n asTempFile w =
            (Inr None, w1 @ [ShowErrorMessage (''ERROR: '' @ error_text e)]))
   \<and> (\<forall>p w1. download_try env n asTempFile w = (Inr p, w1) \<longrightarrow>
          download env n asTempFile w = (Inr (Some p), w1))
   \<and> (priv_languageFileExtension n = Some m
      \<and> (if asTempFile
          then openTempFile env [] (label n @ ''-ONLINE'') False = Inr tmp
               \<and> localPath = tmp @ localFileExtension env n
          else localPath = localFilePath env n)
      \<longrightarrow> (case downloadWorkspaceItem env (path n) localPath (mapper_exportFormat m) of
             Inl error \<Rightarrow>
               download env n asTempFile w =
                 (Inr None,
                  w @ (if asTempFile then [OpenTempFile [] (label n @ ''-ONLINE'') False] else [])
                    @ [DownloadWorkspaceItem (path n) localPath (mapper_exportFormat m),
                       ShowErrorMessage (''ERROR: '' @ error_text error)])
           | Inr response \<Rightarrow>
               download env n asTempFile w =
                 (Inr (Some localPath),
                  w @ (if asTempFile then [OpenTempFile [] (label n @ ''-ONLINE'') False] else [])
                    @ [DownloadWorkspaceItem (path n) localPath (mapper_exportFormat m),
                       ShowInformationMessage (''Download of item '' @ path n @ '') finished!'')]
                    @ (if RefreshAfterUpDownload env \<and> \<not> asTempFile
                       then [Wait 500, ExecuteCommand ''databricksWorkspace.refresh'' False]
                       else []))))"
proof (intro conjI impI allI)
  show "\<exists>r w'. download env n asTempFile w = (Inr r, w')"
    by (rule download_resolves)
next
  fix e w1
  assume "download_try env n asTempFile w = (Inl e, w1)"
  then show "download env n asTempFile w =
      (Inr None, w1 @ [ShowErrorMessage (''ERROR: '' @ error_text e)])"
    by (rule download_catch)
next
  fix p w1
  assume "download_try env n asTempFile w = (Inr p, w1)"
  then show "download env n asTempFile w = (Inr (Some p), w1)"
    by (rule download_return)
next
  assume h: "priv_languageFileExtension n = Some m
      \<and> (if asTempFile
          then openTempFile env [] (label n @ ''-ONLINE'') False = Inr tmp
               \<and> localPath = tmp @ localFileExtension env n
          else localPath = localFilePath env n)"
  show "(case downloadWorkspaceItem env (path n) localPath (mapper_exportFormat m) of
             Inl error \<Rightarrow>
               download env n asTempFile w =
                 (Inr None,
                  w @ (if asTempFile then [OpenTempFile [] (label n @ ''-ONLINE'') False] else [])
                    @ [DownloadWorkspaceItem (path n) localPath (mapper_exportFormat m),
                       ShowErrorMessage (''ERROR: '' @ error_text error)])
           | Inr response \<Rightarrow>
               download env n asTempFile w =
                 (Inr (Some localPath),
                  w @ (if asTempFile then [OpenTempFile [] (label n @ ''-ONLINE'') False] else [])
                    @ [DownloadWorkspaceItem (path n) localPath (mapper_exportFormat m),
                       ShowInformationMessage (''Download of item '' @ path n @ '') finished!'')]
                    @ (if RefreshAfterUpDownload env \<and> \<not> asTempFile
                       then [Wait 500, ExecuteCommand ''databricksWorkspace.refresh'' False]
                       else [])))"
  proof (cases asTempFile)
    case True
    with h show ?thesis
      by (simp add: download_def download_try_def exportFormat_def path_def split: sum.splits)
  next
    case False
    with h show ?thesis
      by (simp add: download_def download_try_def exportFormat_def path_def split: sum.splits)
  qed
qed

text \<open>
  A download to a temporary file whose remote fetch is rejected, and a download to the
  canonical path that succeeds.
\<close>

theorem download_never_rethrows_witness:
  "download (example_env False (\<lambda>p. False) (Inl (Rejected ''403 Forbidden'')))
     (example_node ''/Users/me/nb'' True) True []
   = (Inr None,
      [OpenTempFile [] ''nb-ONLINE'' False,
       DownloadWorkspaceItem ''/Users/me/nb'' ''/tmp/nb-ONLINE.py'' ''SOURCE'',
       ShowErrorMessage ''ERROR: 403 Forbidden''])
   \<and> download (example_env False (\<lambda>p. False) (Inr ()))
       (example_node ''/Users/me/nb'' True) False []
     = (Inr (Some ''sync/Workspace/Users/me/nb.py''),
        [DownloadWorkspaceItem ''/Users/me/nb'' ''sync/Workspace/Users/me/nb.py'' ''SOURCE'',
         ShowInformationMessage ''Download of item /Users/me/nb) finished!'',
         Wait 500, ExecuteCommand ''databricksWorkspace.refresh'' False])"
  using download_never_rethrows
    [of "example_env False (\<lambda>p. False) (Inl (Rejected ''403 Forbidden''))"
        "example_node ''/Users/me/nb'' True" True "[]" py_mapper "''/tmp/nb-ONLINE''"
        "''/tmp/nb-ONLINE.py''"]
    download_never_rethrows
    [of "example_env False (\<lambda>p. False) (Inr ())"
        "example_node ''/Users/me/nb'' True" False "[]" py_mapper "[]"
        "''sync/Workspace/Users/me/nb.py''"]
  by (simp add: path_defs node_defs example_defs label_of_def)

text \<open>
  C5 (as amended): when the active mapping is a packaged notebook format, \<^verbatim>\<open>compare\<close> shows
  its refusal and returns, with no download and no diff. Otherwise, when the download of
  the temporary copy succeeds, \<^verbatim>\<open>compare\<close> opens the diff view on that copy and the local
  file; the download succeeds when the temporary file is allocated and the remote fetch
  succeeds, and the events are then the allocation, the fetch, the message of \<^verbatim>\<open>download\<close>
  and the diff.
\<close>

theorem compare_refuses_notebook_format:
  assumes "priv_languageFileExtension n = Some m"
  shows "(isNotebook m \<longrightarrow>
            compare env n w =
              (Inr (), w @ [ShowErrorMessage ''DIFF is currently not supported when using notebooks. You can change the export formats to work around this issue!'']))
       \<and> (\<not> isNotebook m \<longrightarrow>
            (\<forall>onlineFileTempPath w1.
               download env n True w = (Inr (Some onlineFileTempPath), w1) \<longrightarrow>
               compare env n w =
                 (Inr (), w1 @ [ShowDiff (Some onlineFileTempPath) (localFilePath env n)])))
       \<and> (\<not> isNotebook m
          \<and> openTempFile env [] (label n @ ''-ONLINE'') False = Inr tmp
          \<and> downloadWorkspaceItem env (path n) (tmp @ extension m) (mapper_exportFormat m) = Inr ()
          \<longrightarrow> compare env n w =
                (Inr (),
                 w @ [OpenTempFile [] (label n @ ''-ONLINE'') False,
                      DownloadWorkspaceItem (path n) (tmp @ extension m) (mapper_exportFormat m),
                      ShowInformationMessage (''Download of item '' @ path n @ '') finished!''),
                      ShowDiff (Some (tmp @ extension m)) (localFilePath env n)]))"
proof (intro conjI impI allI)
  assume "isNotebook m"
  with assms show "compare env n w =
              (Inr (), w @ [ShowErrorMessage ''DIFF is currently not supported when using notebooks. You can change the export formats to work around this issue!''])"
    by (simp add: compare_def)
next
  fix onlineFileTempPath w1
  assume "\<not> isNotebook m"
    and "download env n True w = (Inr (Some onlineFileTempPath), w1)"
  with assms show "compare env n w =
      (Inr (), w1 @ [ShowDiff (Some onlineFileTempPath) (localFilePath env n)])"
    by (simp add: compare_def)
next
  assume h: "\<not> isNotebook m
          \<and> openTempFile env [] (label n @ ''-ONLINE'') False = Inr tmp
          \<and> downloadWorkspaceItem env (path n) (tmp @ extension m) (mapper_exportFormat m) = Inr ()"
  with assms show "compare env n w =
                (Inr (),
                 w @ [OpenTempFile [] (label n @ ''-ONLINE'') False,
                      DownloadWorkspaceItem (path n) (tmp @ extension m) (mapper_exportFormat m),
                      ShowInformationMessage (''Download of item '' @ path n @ '') finished!''),
                      ShowDiff (Some (tmp @ extension m)) (localFilePath env n)])"
    by (simp add: compare_def download_def download_try_def exportFormat_def
        localFileExtension_def path_def)
qed

text \<open>
  A node bound to the mapper of \<^verbatim>\<open>.ipynb\<close>, which is refused, and a node bound to the mapper
  of \<^verbatim>\<open>.py\<close> whose download succeeds.
\<close>

theorem compare_refuses_notebook_format_witness:
  "compare (example_env False (\<lambda>p. False) (Inr ()))
     (example_ipynb_node ''/Users/me/nb'') []
   = (Inr (), [ShowErrorMessage ''DIFF is currently not supported when using notebooks. You can change the export formats to work around this issue!''])
   \<and> download (example_env False (\<lambda>p. False) (Inr ())) (example_node ''/Users/me/nb'' True)
       True []
     = (Inr (Some ''/tmp/nb-ONLINE.py''),
        [OpenTempFile [] ''nb-ONLINE'' False,
         DownloadWorkspaceItem ''/Users/me/nb'' ''/tmp/nb-ONLINE.py'' ''SOURCE'',
         ShowInformationMessage ''Download of item /Users/me/nb) finished!''])
   \<and> compare (example_env False (\<lambda>p. False) (Inr ())) (example_node ''/Users/me/nb'' True) []
     = (Inr (),
        [OpenTempFile [] ''nb-ONLINE'' False,
         DownloadWorkspaceItem ''/Users/me/nb'' ''/tmp/nb-ONLINE.py'' ''SOURCE'',
         ShowInformationMessage ''Download of item /Users/me/nb) finished!'',
         ShowDiff (Some ''/tmp/nb-ONLINE.py'') ''sync/Workspace/Users/me/nb.py''])"
proof -
  let ?E = "example_env False (\<lambda>p. False) (Inr ())"
  let ?N = "example_node ''/Users/me/nb'' True"
  have refused: "compare ?E (example_ipynb_node ''/Users/me/nb'') []
      = (Inr (), [ShowErrorMessage ''DIFF is currently not supported when using notebooks. You can change the export formats to work around this issue!''])"
    using compare_refuses_notebook_format
      [of "example_ipynb_node ''/Users/me/nb''" ipynb_mapper ?E "[]" "[]"]
    by (simp add: example_defs)
  have d: "download ?E ?N True []
      = (Inr (Some ''/tmp/nb-ONLINE.py''),
         [OpenTempFile [] ''nb-ONLINE'' False,
          DownloadWorkspaceItem ''/Users/me/nb'' ''/tmp/nb-ONLINE.py'' ''SOURCE'',
          ShowInformationMessage ''Download of item /Users/me/nb) finished!''])"
    by (simp add: download_def download_try_def exportFormat_def path_defs node_defs
        example_defs label_of_def)
  have lfp: "localFilePath ?E ?N = ''sync/Workspace/Users/me/nb.py''"
    by (simp add: path_defs node_defs example_defs)
  have m: "priv_languageFileExtension ?N = Some py_mapper" and nb: "\<not> isNotebook py_mapper"
    by (simp_all add: example_defs)
  have diffed: "compare ?E ?N []
      = (Inr (),
         [OpenTempFile [] ''nb-ONLINE'' False,
          DownloadWorkspaceItem ''/Users/me/nb'' ''/tmp/nb-ONLINE.py'' ''SOURCE'',
          ShowInformationMessage ''Download of item /Users/me/nb) finished!'']
         @ [ShowDiff (Some ''/tmp/nb-ONLINE.py'') (localFilePath ?E ?N)])"
    using compare_refuses_notebook_format [OF m, of ?E "[]" "[]"] nb d by blast
  have steps: "compare ?E ?N []
      = (Inr (),
         [OpenTempFile [] ''nb-ONLINE'' False,
          DownloadWorkspaceItem ''/Users/me/nb'' ''/tmp/nb-ONLINE.py'' ''SOURCE'',
          ShowInformationMessage ''Download of item /Users/me/nb) finished!'',
          ShowDiff (Some ''/tmp/nb-ONLINE.py'') ''sync/Workspace/Users/me/nb.py''])"
    using compare_refuses_notebook_format [OF m, of ?E "[]" "''/tmp/nb-ONLINE''"] nb
    by (simp add: path_defs node_defs example_defs label_of_def)
  from refused d diffed lfp steps show ?thesis by simp
qed

text \<open>
  The claim as it was stated fails when the download fails. Here the remote fetch is
  rejected, or the temporary file cannot be allocated and no fetch is made: no temporary
  copy comes to exist, and the events of \<^verbatim>\<open>compare\<close> are not those of a download followed by
  a diff of the copy.
\<close>

theorem compare_refuses_notebook_format_counterexample:
  "\<not> isNotebook py_mapper
   \<and> priv_languageFileExtension (example_node ''/Users/me/nb'' True) = Some py_mapper
   \<and> download (example_env False (\<lambda>p. False) (Inl (Rejected ''403 Forbidden'')))
       (example_node ''/Users/me/nb'' True) True []
     = (Inr None,
        [OpenTempFile [] ''nb-ONLINE'' False,
         DownloadWorkspaceItem ''/Users/me/nb'' ''/tmp/nb-ONLINE.py'' ''SOURCE'',
         ShowErrorMessage ''ERROR: 403 Forbidden''])
   \<and> compare (example_env False (\<lambda>p. False) (Inl (Rejected ''403 Forbidden'')))
       (example_node ''/Users/me/nb'' True) []
     = (Inr (),
        [OpenTempFile [] ''nb-ONLINE'' False,
         DownloadWorkspaceItem ''/Users/me/nb'' ''/tmp/nb-ONLINE.py'' ''SOURCE'',
         ShowErrorMessage ''ERROR: 403 Forbidden'',
         ShowDiff None ''sync/Workspace/Users/me/nb.py''])
   \<and> compare ((example_env False (\<lambda>p. False) (Inr ()))
                 \<lparr>openTempFile :=
                    (\<lambda>pre name keep. Inl (Rejected ''ENOSPC: no space left on device''))\<rparr>)
       (example_node ''/Users/me/nb'' True) []
     = (Inr (),
        [OpenTempFile [] ''nb-ONLINE'' False,
         ShowErrorMessage ''ERROR: ENOSPC: no space left on device'',
         ShowDiff None ''sync/Workspace/Users/me/nb.py''])"
  by (simp add: compare_def download_def download_try_def exportFormat_def path_defs node_defs
      example_defs label_of_def)

text \<open>
  C3: the promise of \<^verbatim>\<open>uploadWorkspaceItem\<close> is not awaited, so \<^verbatim>\<open>upload\<close> does not see its
  outcome. Here the remote call is rejected, and \<^verbatim>\<open>upload\<close> reports the upload as finished
  and asks for a refresh; no error message is shown.
\<close>

theorem upload_reports_success_on_failure:
  "upload (example_env False (\<lambda>p. True) (Inl (Rejected ''403 Forbidden'')))
     (example_node ''/Users/me/nb'' True) []
   = (Inr (),
      [UploadWorkspaceItem ''sync/Workspace/Users/me/nb.py'' ''/Users/me/nb'' (Some ''PYTHON'')
         True ''SOURCE'',
       ShowInformationMessage ''Upload of item /Users/me/nb) finished!'',
       Wait 500, ExecuteCommand ''databricksWorkspace.refresh'' False])"
  by (simp add: upload_def upload_try_def exportFormat_def path_defs node_defs example_defs)

section \<open>Context value and tooltip\<close>

text \<open>
  Both accessors read \<^verbatim>\<open>localPathExists\<close> more than once, and a read that finds a file under
  another extension rebinds the mapping the next read starts from.
\<close>

lemma contextValue_reads:
  "fst (contextValue env n) =
     (if fst (localPathExists env n) \<and> onlinePathExists n then Some ''CAN_SYNC''
      else if \<not> fst (localPathExists env (reread env n)) \<and> onlinePathExists n
      then Some ''CAN_DOWNLOAD''
      else if fst (localPathExists env (reread env (reread env n))) \<and> \<not> onlinePathExists n
      then Some ''CAN_UPLOAD''
      else None)"
proof -
  obtain l1 n1 where r1: "localPathExists env n = (l1, n1)"
    by (cases "localPathExists env n")
  obtain l2 n2 where r2: "localPathExists env n1 = (l2, n2)"
    by (cases "localPathExists env n1")
  obtain l3 n3 where r3: "localPathExists env n2 = (l3, n3)"
    by (cases "localPathExists env n2")
  have o1: "onlinePathExists n1 = onlinePathExists n"
    using localPathExists_online [of env n] r1 by simp
  have o2: "onlinePathExists n2 = onlinePathExists n"
    using localPathExists_online [of env n1] r2 o1 by simp
  have o3: "onlinePathExists n3 = onlinePathExists n"
    using localPathExists_online [of env n2] r3 o2 by simp
  show ?thesis
    using r1 r2 r3 o1 o2 o3 by (simp add: contextValue_def reread_def)
qed

lemma tooltip_reads:
  "fst (tooltip env n) =
     path n @ [newline]
     @ (if onlinePathExists n \<and> \<not> fst (localPathExists env n) then ''[Online only]'' @ [newline] else [])
     @ (if \<not> onlinePathExists n \<and> fst (localPathExists env n) then ''[Offline only]'' @ [newline] else [])
     @ (if onlinePathExists n \<and> fst (localPathExists env (reread env n)) then ''[Synced]'' @ [newline] else [])"
proof -
  obtain l1 n1 where r1: "localPathExists env n = (l1, n1)"
    by (cases "localPathExists env n")
  obtain l2 n2 where r2: "localPathExists env n1 = (l2, n2)"
    by (cases "localPathExists env n1")
  have o1: "onlinePathExists n1 = onlinePathExists n"
    using localPathExists_online [of env n] r1 by simp
  show ?thesis
  proof (cases "onlinePathExists n")
    case True
    with r1 r2 o1 show ?thesis
      by (simp add: tooltip_def reread_def Let_def)
  next
    case False
    with r1 o1 show ?thesis
      by (simp add: tooltip_def reread_def Let_def)
  qed
qed

text \<open>
  Where the reads of \<^verbatim>\<open>localPathExists\<close> within one evaluation agree, \<^verbatim>\<open>contextValue\<close>
  follows the table over \<^verbatim>\<open>localPathExists\<close> and \<^verbatim>\<open>onlinePathExists\<close>: both true gives
  \<^verbatim>\<open>CAN_SYNC\<close>, online only gives \<^verbatim>\<open>CAN_DOWNLOAD\<close>, neither gives \<^verbatim>\<open>undefined\<close>, and local
  only gives \<^verbatim>\<open>CAN_UPLOAD\<close>. The reads agree in the first three rows, and in all four with
  \<^verbatim>\<open>allowAllSupportedFileExtensions\<close> disabled.
\<close>

lemma contextValue_table:
  "(fst (localPathExists env n) \<and> onlinePathExists n \<longrightarrow>
      fst (contextValue env n) = Some ''CAN_SYNC'')
   \<and> (\<not> fst (localPathExists env n) \<and> onlinePathExists n \<longrightarrow>
      fst (contextValue env n) = Some ''CAN_DOWNLOAD'')
   \<and> (\<not> fst (localPathExists env n) \<and> \<not> onlinePathExists n \<longrightarrow>
      fst (contextValue env n) = None)
   \<and> (fst (localPathExists env n) \<and> \<not> onlinePathExists n
       \<and> fst (localPathExists env (reread env (reread env n))) \<longrightarrow>
      fst (contextValue env n) = Some ''CAN_UPLOAD'')
   \<and> (fst (localPathExists env n) \<and> \<not> onlinePathExists n
       \<and> \<not> allowAllSupportedFileExtensions env \<longrightarrow>
      fst (contextValue env n) = Some ''CAN_UPLOAD'')"
proof (intro conjI impI)
  assume "fst (localPathExists env n) \<and> onlinePathExists n"
  then show "fst (contextValue env n) = Some ''CAN_SYNC''"
    by (simp add: contextValue_reads)
next
  assume h: "\<not> fst (localPathExists env n) \<and> onlinePathExists n"
  then have "reread env n = n"
    by (simp add: reread_def localPathExists_False_unchanged)
  with h show "fst (contextValue env n) = Some ''CAN_DOWNLOAD''"
    by (simp add: contextValue_reads)
next
  assume h: "\<not> fst (localPathExists env n) \<and> \<not> onlinePathExists n"
  then have "reread env n = n"
    by (simp add: reread_def localPathExists_False_unchanged)
  with h show "fst (contextValue env n) = None"
    by (simp add: contextValue_reads)
next
  assume "fst (localPathExists env n) \<and> \<not> onlinePathExists n
       \<and> fst (localPathExists env (reread env (reread env n)))"
  then show "fst (contextValue env n) = Some ''CAN_UPLOAD''"
    by (simp add: contextValue_reads)
next
  assume h: "fst (localPathExists env n) \<and> \<not> onlinePathExists n
       \<and> \<not> allowAllSupportedFileExtensions env"
  then have "reread env n = n"
    by (simp add: reread_def localPathExists_disabled_unchanged)
  with h show "fst (contextValue env n) = Some ''CAN_UPLOAD''"
    by (simp add: contextValue_reads)
qed

text \<open>
  C1: a node that exists locally only is to have the context value \<^verbatim>\<open>CAN_UPLOAD\<close>, which the
  third test of the if-chain returns. On the notebook \<^verbatim>\<open>/a.py/nb\<close>, constructed from a local
  file while no local file existed and read with the policy enabled once
  \<^verbatim>\<open>sync/Workspace/a.ipynb/nb.py\<close> has become the only file, \<^verbatim>\<open>localPathExists\<close> reads true,
  \<^verbatim>\<open>onlinePathExists\<close> is false, and the context value is \<^verbatim>\<open>undefined\<close>. The first read
  replaces the first \<^verbatim>\<open>.py\<close> of \<^verbatim>\<open>sync/Workspace/a.py/nb.py\<close>, which is in the folder name,
  finds that file and rebinds the mapping to \<^verbatim>\<open>.ipynb\<close>; the later reads start from
  \<^verbatim>\<open>sync/Workspace/a.py/nb.ipynb\<close> and find nothing.
\<close>

theorem contextValue_undefined_for_local_only:
  "fst (localPathExists (example_env True (\<lambda>p. p = ''sync/Workspace/a.ipynb/nb.py'') (Inr ()))
         (example_node ''/a.py/nb'' False))
   \<and> \<not> onlinePathExists (example_node ''/a.py/nb'' False)
   \<and> fst (contextValue (example_env True (\<lambda>p. p = ''sync/Workspace/a.ipynb/nb.py'') (Inr ()))
         (example_node ''/a.py/nb'' False)) = None"
  by (simp add: contextValue_def localPathExists_def path_defs node_defs example_defs)

text \<open>
  Where the reads of \<^verbatim>\<open>localPathExists\<close> within one evaluation agree, the tooltip is the path
  and a newline, followed by the line \<^verbatim>\<open>[Online only]\<close> for a node that exists online only,
  by the line \<^verbatim>\<open>[Offline only]\<close> for one that exists locally only, by the line \<^verbatim>\<open>[Synced]\<close>
  for one that exists on both sides, and by nothing for one that exists nowhere. When the
  path itself contains none of the three markers, that marker is the only one the tooltip
  contains.
\<close>

lemma tooltip_marker:
  "(\<not> fst (localPathExists env n) \<and> onlinePathExists n \<longrightarrow>
      fst (tooltip env n) = path n @ [newline] @ ''[Online only]'' @ [newline]
      \<and> (tooltip_markers (path n) = [] \<longrightarrow>
           tooltip_markers (fst (tooltip env n)) = [''[Online only]'']))
   \<and> (fst (localPathExists env n) \<and> \<not> onlinePathExists n \<longrightarrow>
      fst (tooltip env n) = path n @ [newline] @ ''[Offline only]'' @ [newline]
      \<and> (tooltip_markers (path n) = [] \<longrightarrow>
           tooltip_markers (fst (tooltip env n)) = [''[Offline only]'']))
   \<and> (\<not> fst (localPathExists env n) \<and> \<not> onlinePathExists n \<longrightarrow>
      fst (tooltip env n) = path n @ [newline]
      \<and> (tooltip_markers (path n) = [] \<longrightarrow> tooltip_markers (fst (tooltip env n)) = []))
   \<and> (fst (localPathExists env n) \<and> onlinePathExists n
       \<and> fst (localPathExists env (reread env n)) \<longrightarrow>
      fst (tooltip env n) = path n @ [newline] @ ''[Synced]'' @ [newline]
      \<and> (tooltip_markers (path n) = [] \<longrightarrow>
           tooltip_markers (fst (tooltip env n)) = [''[Synced]'']))
   \<and> (fst (localPathExists env n) \<and> onlinePathExists n
       \<and> \<not> allowAllSupportedFileExtensions env \<longrightarrow>
      fst (tooltip env n) = path n @ [newline] @ ''[Synced]'' @ [newline]
      \<and> (tooltip_markers (path n) = [] \<longrightarrow>
           tooltip_markers (fst (tooltip env n)) = [''[Synced]'']))"
proof (intro conjI impI)
  assume h: "\<not> fst (localPathExists env n) \<and> onlinePathExists n"
  then have "reread env n = n"
    by (simp add: reread_def localPathExists_False_unchanged)
  with h show t: "fst (tooltip env n) = path n @ [newline] @ ''[Online only]'' @ [newline]"
    by (simp add: tooltip_reads)
  assume "tooltip_markers (path n) = []"
  then show "tooltip_markers (fst (tooltip env n)) = [''[Online only]'']"
    by (simp only: t tooltip_markers_tooltip)
next
  assume "fst (localPathExists env n) \<and> \<not> onlinePathExists n"
  then show t: "fst (tooltip env n) = path n @ [newline] @ ''[Offline only]'' @ [newline]"
    by (simp add: tooltip_reads)
  assume "tooltip_markers (path n) = []"
  then show "tooltip_markers (fst (tooltip env n)) = [''[Offline only]'']"
    by (simp only: t tooltip_markers_tooltip)
next
  assume "\<not> fst (localPathExists env n) \<and> \<not> onlinePathExists n"
  then show t: "fst (tooltip env n) = path n @ [newline]"
    by (simp add: tooltip_reads)
  assume "tooltip_markers (path n) = []"
  then show "tooltip_markers (fst (tooltip env n)) = []"
    by (simp only: t tooltip_markers_tooltip)
next
  assume "fst (localPathExists env n) \<and> onlinePathExists n
       \<and> fst (localPathExists env (reread env n))"
  then show t: "fst (tooltip env n) = path n @ [newline] @ ''[Synced]'' @ [newline]"
    by (simp add: tooltip_reads)
  assume "tooltip_markers (path n) = []"
  then show "tooltip_markers (fst (tooltip env n)) = [''[Synced]'']"
    by (simp only: t tooltip_markers_tooltip)
next
  assume h: "fst (localPathExists env n) \<and> onlinePathExists n
       \<and> \<not> allowAllSupportedFileExtensions env"
  then have "reread env n = n"
    by (simp add: reread_def localPathExists_disabled_unchanged)
  with h show t: "fst (tooltip env n) = path n @ [newline] @ ''[Synced]'' @ [newline]"
    by (simp add: tooltip_reads)
  assume "tooltip_markers (path n) = []"
  then show "tooltip_markers (fst (tooltip env n)) = [''[Synced]'']"
    by (simp only: t tooltip_markers_tooltip)
qed

text \<open>
  C6: the tooltip of a node that exists on both sides is to contain the marker \<^verbatim>\<open>[Synced]\<close>,
  which the third test of \<^verbatim>\<open>tooltip\<close> appends. On the notebook \<^verbatim>\<open>/a.py/nb\<close>, which exists
  online, constructed while no local file existed and read with the policy enabled once
  \<^verbatim>\<open>sync/Workspace/a.ipynb/nb.py\<close> has become the only file, \<^verbatim>\<open>localPathExists\<close> reads true
  and \<^verbatim>\<open>onlinePathExists\<close> is true, and the tooltip is the path and a newline, with none of
  the three markers. The first read replaces the first \<^verbatim>\<open>.py\<close> of
  \<^verbatim>\<open>sync/Workspace/a.py/nb.py\<close>, which is in the folder name, finds that file and rebinds the
  mapping to \<^verbatim>\<open>.ipynb\<close>; the second read starts from \<^verbatim>\<open>sync/Workspace/a.py/nb.ipynb\<close> and
  finds nothing.
\<close>

theorem tooltip_without_marker_for_synced:
  "fst (localPathExists (example_env True (\<lambda>p. p = ''sync/Workspace/a.ipynb/nb.py'') (Inr ()))
         (example_node ''/a.py/nb'' True))
   \<and> onlinePathExists (example_node ''/a.py/nb'' True)
   \<and> fst (tooltip (example_env True (\<lambda>p. p = ''sync/Workspace/a.ipynb/nb.py'') (Inr ()))
         (example_node ''/a.py/nb'' True)) = ''/a.py/nb'' @ [newline]
   \<and> tooltip_markers
        (fst (tooltip (example_env True (\<lambda>p. p = ''sync/Workspace/a.ipynb/nb.py'') (Inr ()))
                (example_node ''/a.py/nb'' True))) = []"
  by (simp add: tooltip_def localPathExists_def path_defs node_defs example_defs
      tooltip_markers_def string_includes_def newline_def)

section \<open>The local file path and the probed paths\<close>






text \<open>
  The side condition for the empty path is needed: with the subfolder \<^verbatim>\<open>Workspace/\<close> and a
  mapper whose extension is empty, the canonical path of the node with the empty path is
  \<^verbatim>\<open>sync/Workspace\<close>, and the join of the two folders and the empty string is
  \<^verbatim>\<open>sync/Workspace/\<close>.
\<close>

lemma localFilePath_empty_path_limit:
  "localFilePath
     ((example_env True (\<lambda>p. False) (Inr ()))\<lparr>WorkspaceSubFolder := ''Workspace/''\<rparr>)
     (new_notebook
        ((example_env True (\<lambda>p. False) (Inr ()))\<lparr>WorkspaceSubFolder := ''Workspace/''\<rparr>)
        [] 1 Online (Mapper (py_mapper\<lparr>extension := []\<rparr>)))
   = ''sync/Workspace''
   \<and> path_join [''sync'', ''Workspace/'', [] @ []] = ''sync/Workspace/''"
  by (simp add: new_notebook_def getIconPath_def localPathExists_def probe_find path_defs
      node_defs example_defs)


text \<open>
  C10: the path probed for a candidate extension is \<^verbatim>\<open>localFilePath\<close> with the first
  occurrence of the canonical extension replaced by the candidate, wherever in the path
  that occurrence is. When the canonical extension is the tail of the path and starts at
  no earlier position, the probed path is the path without its extension followed by the
  candidate. The candidates are the recognized file extensions, a dot followed by letters
  and digits such as \<^verbatim>\<open>.py\<close>, \<^verbatim>\<open>.r\<close>, \<^verbatim>\<open>.scala\<close>, \<^verbatim>\<open>.sql\<close> and \<^verbatim>\<open>.ipynb\<close>: they have no \<^verbatim>\<open>$\<close>, the
  one character that \<^verbatim>\<open>replace\<close> does not copy from its second argument as it is.
\<close>

theorem pathToCheck_replaces_extension:
  assumes "CHR ''$'' \<notin> set ext"
  shows "(localFilePath env n = front @ localFileExtension env n @ rest
          \<and> (\<forall>j < length front.
                \<not> isPrefixOf (localFileExtension env n) (drop j (localFilePath env n)))
          \<longrightarrow> pathToCheck env n ext = front @ ext @ rest)
       \<and> (localFilePath env n = stem @ localFileExtension env n
          \<and> (\<forall>j < length stem.
                \<not> isPrefixOf (localFileExtension env n) (drop j (localFilePath env n)))
          \<longrightarrow> pathToCheck env n ext = stem @ ext)"
proof (intro conjI impI)
  assume "localFilePath env n = front @ localFileExtension env n @ rest
          \<and> (\<forall>j < length front.
                \<not> isPrefixOf (localFileExtension env n) (drop j (localFilePath env n)))"
  then have a: "localFilePath env n = front @ localFileExtension env n @ rest"
    and b: "\<forall>j < length front.
          \<not> isPrefixOf (localFileExtension env n) (drop j (localFilePath env n))"
    by blast+
  show "pathToCheck env n ext = front @ ext @ rest"
    unfolding pathToCheck_def by (rule replace_first [OF a b assms])
next
  assume "localFilePath env n = stem @ localFileExtension env n
          \<and> (\<forall>j < length stem.
                \<not> isPrefixOf (localFileExtension env n) (drop j (localFilePath env n)))"
  then have a0: "localFilePath env n = stem @ localFileExtension env n"
    and b: "\<forall>j < length stem.
          \<not> isPrefixOf (localFileExtension env n) (drop j (localFilePath env n))"
    by blast+
  from a0 have a: "localFilePath env n = stem @ localFileExtension env n @ []"
    by simp
  have "replace (localFilePath env n) (localFileExtension env n) ext = stem @ ext @ []"
    by (rule replace_first [OF a b assms])
  then show "pathToCheck env n ext = stem @ ext"
    by (simp add: pathToCheck_def)
qed

text \<open>
  The candidate \<^verbatim>\<open>.ipynb\<close> on the notebook \<^verbatim>\<open>/Users/me/nb\<close>, where \<^verbatim>\<open>.py\<close> occurs at the end of the
  canonical path only, and on the notebook \<^verbatim>\<open>/a.py/nb\<close>, where it occurs in the folder name
  first.
\<close>

theorem pathToCheck_replaces_extension_witness:
  "CHR ''$'' \<notin> set ''.ipynb''
   \<and> localFilePath (example_env True (\<lambda>p. False) (Inr ())) (example_node ''/Users/me/nb'' True)
       = ''sync/Workspace/Users/me/nb''
         @ localFileExtension (example_env True (\<lambda>p. False) (Inr ())) (example_node ''/Users/me/nb'' True)
   \<and> pathToCheck (example_env True (\<lambda>p. False) (Inr ())) (example_node ''/Users/me/nb'' True)
        ''.ipynb'' = ''sync/Workspace/Users/me/nb.ipynb''
   \<and> localFilePath (example_env True (\<lambda>p. False) (Inr ())) (example_node ''/a.py/nb'' True)
       = ''sync/Workspace/a''
         @ localFileExtension (example_env True (\<lambda>p. False) (Inr ())) (example_node ''/a.py/nb'' True)
         @ ''/nb.py''
   \<and> pathToCheck (example_env True (\<lambda>p. False) (Inr ())) (example_node ''/a.py/nb'' True)
        ''.ipynb'' = ''sync/Workspace/a.ipynb/nb.py''"
proof -
  let ?E = "example_env True (\<lambda>p. False) (Inr ())"
  let ?N = "example_node ''/Users/me/nb'' True"
  let ?M = "example_node ''/a.py/nb'' True"
  have lfp: "localFilePath ?E ?N = ''sync/Workspace/Users/me/nb'' @ localFileExtension ?E ?N"
    by (simp add: path_defs node_defs example_defs)
  have "indexOf (localFilePath ?E ?N) (localFileExtension ?E ?N)
        = Some (length ''sync/Workspace/Users/me/nb'')"
    by (simp add: path_defs node_defs example_defs)
  then have first: "\<forall>j < length ''sync/Workspace/Users/me/nb''.
      \<not> isPrefixOf (localFileExtension ?E ?N) (drop j (localFilePath ?E ?N))"
    using indexOf_Some_iff by blast
  have trailing: "pathToCheck ?E ?N ''.ipynb'' = ''sync/Workspace/Users/me/nb'' @ ''.ipynb''"
    using pathToCheck_replaces_extension
      [of "''.ipynb''" ?E ?N "[]" "[]" "''sync/Workspace/Users/me/nb''"] lfp first
    by simp
  have lfp': "localFilePath ?E ?M = ''sync/Workspace/a'' @ localFileExtension ?E ?M @ ''/nb.py''"
    by (simp add: path_defs node_defs example_defs)
  have "indexOf (localFilePath ?E ?M) (localFileExtension ?E ?M)
        = Some (length ''sync/Workspace/a'')"
    by (simp add: path_defs node_defs example_defs)
  then have first': "\<forall>j < length ''sync/Workspace/a''.
      \<not> isPrefixOf (localFileExtension ?E ?M) (drop j (localFilePath ?E ?M))"
    using indexOf_Some_iff by blast
  have inner: "pathToCheck ?E ?M ''.ipynb'' = ''sync/Workspace/a'' @ ''.ipynb'' @ ''/nb.py''"
    using pathToCheck_replaces_extension
      [of "''.ipynb''" ?E ?M "''sync/Workspace/a''" "''/nb.py''" "[]"] lfp' first'
    by simp
  from lfp trailing lfp' inner show ?thesis by simp
qed

end
